theory Spec2Isabelle
  imports Main "HOL-Library.AList" "HOL-Library.Sublist"
begin

section \<open>The fossil-sys Conan recipe (conanfile.py)\<close>

text \<open>
  The recipe is one Python class, \<^verbatim>\<open>FossilSysConan\<close>, whose methods are the lifecycle
  hooks that the Conan host calls. Each hook is embedded as a function on an explicit
  world: the recipe instance (\<^verbatim>\<open>self\<close>), the filesystem, and the sequence of calls
  made to external tools. What an external tool does to the filesystem, and whether it
  fails, is not part of the repository; it is a parameter of every hook (the host).
\<close>

subsection \<open>Paths and strings\<close>

text \<open>
  A path is the list of its components, read from the working directory of the process
  that runs the recipe.
\<close>

type_synonym path = "string list"

text \<open>Splitting a string at a separator character, as \<^verbatim>\<open>str.split(sep)\<close> does.\<close>

fun split_on :: "char \<Rightarrow> string \<Rightarrow> string list" where
  "split_on sep [] = [[]]"
| "split_on sep (c # cs) =
     (if c = sep then [] # split_on sep cs
      else (case split_on sep cs of
              [] \<Rightarrow> [[c]]
            | w # ws \<Rightarrow> (c # w) # ws))"

definition split_path :: "string \<Rightarrow> path" where
  "split_path s = split_on (CHR ''/'') s"

text \<open>
  \<^verbatim>\<open>os.path.join(base, *parts)\<close> for relative, slash-free parts (the only use in the
  recipe): the parts become further components below the base.
\<close>

definition os_path_join :: "path \<Rightarrow> string list \<Rightarrow> path" where
  "os_path_join base parts = base @ parts"

text \<open>
  A layout folder is a string relative to the base directory of the recipe. Its
  resolution joins it to the base and drops the components that name the directory
  itself (\<^verbatim>\<open>.\<close> and the empty component).
\<close>

definition resolve :: "path \<Rightarrow> string \<Rightarrow> path" where
  "resolve base folder =
     base @ filter (\<lambda>c. c \<noteq> ''.'' \<and> c \<noteq> '''') (split_path folder)"

subsection \<open>The recipe instance\<close>

record settings =
  os :: string
  compiler :: string
  build_type :: string
  arch :: string

record options =
  shared :: bool

record folders =
  folders_source :: string
  folders_build :: string

record cpp_info =
  libs :: "string list"
  includedirs :: "string list"

record conanfile =
  name :: string
  version :: string
  license :: string
  author :: string
  url :: string
  description :: string
  topics :: "string list"
  settings :: settings
  options :: options
  folders :: folders
  cpp_info :: cpp_info
  base_folder :: path
  package_folder :: path

text \<open>
  A fresh instance: the class attributes of lines 7 to 17, with what the host supplies
  (settings, the value of the option, the base directory and the package folder) as
  arguments. The default of \<^verbatim>\<open>shared\<close> is \<^verbatim>\<open>False\<close>.
\<close>

definition default_options :: options where
  "default_options = \<lparr>shared = False\<rparr>"

definition FossilSysConan :: "settings \<Rightarrow> options \<Rightarrow> path \<Rightarrow> path \<Rightarrow> conanfile" where
  "FossilSysConan st opts base pkg =
     \<lparr>name = ''fossil_sys'',
      version = ''0.1.3'',
      license = ''MPL-2.0'',
      author = ''Fossil Logic <michaelbrockus@gmail.com>'',
      url = ''https://github.com/fossillogic/fossil-sys'',
      description = ''Fossil Sys is a lightweight, portable system level library written in pure C with zero external dependencies.'',
      topics = [''c'', ''memory'', ''binary'', ''host'', ''cpp'', ''meson'',
                ''conan-recipe'', ''mesonbuild'', ''ninja-build''],
      settings = st,
      options = opts,
      folders = \<lparr>folders_source = '''', folders_build = ''''\<rparr>,
      cpp_info = \<lparr>libs = [], includedirs = []\<rparr>,
      base_folder = base,
      package_folder = pkg\<rparr>"

subsection \<open>The filesystem, external tools and errors\<close>

text \<open>
  Files are an association list from paths to contents (the first binding of a path is
  the file). \<open>dirs\<close> lists directories that exist without holding a file;
  \<open>readonly\<close> lists directories below which nothing can be created or written.
\<close>

record filesystem =
  files :: "(path \<times> string) list"
  dirs :: "path list"
  readonly :: "path list"

definition read_file :: "filesystem \<Rightarrow> path \<Rightarrow> string option" where
  "read_file fsys p = map_of (files fsys) p"

definition write_file :: "path \<Rightarrow> string \<Rightarrow> filesystem \<Rightarrow> filesystem" where
  "write_file p c fsys = fsys\<lparr>files := AList.update p c (files fsys)\<rparr>"

definition populated :: "filesystem \<Rightarrow> path \<Rightarrow> bool" where
  "populated fsys d = list_ex (\<lambda>p. strict_prefix d p) (map fst (files fsys))"

definition dir_exists :: "filesystem \<Rightarrow> path \<Rightarrow> bool" where
  "dir_exists fsys d = (d \<in> set (dirs fsys) \<or> populated fsys d)"

definition can_write :: "filesystem \<Rightarrow> path \<Rightarrow> bool" where
  "can_write fsys p = (\<not> list_ex (\<lambda>d. prefix d p) (readonly fsys))"

datatype error =
    ConfigurationError
  | UnsupportedSettingsError
  | SourceFetchError
  | ConfigureError
  | BuildError
  | PackagingError
  | ConanException string
  | AttributeError string

text \<open>
  The calls the recipe makes to code outside the repository: \<^verbatim>\<open>self.run(cmd)\<close>,
  \<^verbatim>\<open>MesonToolchain(self).generate()\<close>, and the three operations of
  \<^verbatim>\<open>Meson(self)\<close>.
\<close>

datatype call =
    Run string
  | MesonToolchainGenerate
  | MesonConfigure
  | MesonBuild
  | MesonInstall

text \<open>
  The host gives every external call its effect: it sees the recipe instance and the
  filesystem, and either fails or returns the filesystem it leaves behind.
\<close>

type_synonym host = "call \<Rightarrow> conanfile \<Rightarrow> filesystem \<Rightarrow> error + filesystem"

record world =
  self :: conanfile
  fs :: filesystem
  trace :: "call list"

type_synonym hook = "host \<Rightarrow> world \<Rightarrow> error + world"

text \<open>An exception raised by a statement ends the hook: the later statements do not run.\<close>

definition and_then :: "error + world \<Rightarrow> (world \<Rightarrow> error + world) \<Rightarrow> error + world" where
  "and_then r k = (case r of Inl e \<Rightarrow> Inl e | Inr w \<Rightarrow> k w)"

definition call_tool :: "host \<Rightarrow> call \<Rightarrow> world \<Rightarrow> error + world" where
  "call_tool h c w =
     (case h c (self w) (fs w) of
        Inl e \<Rightarrow> Inl e
      | Inr fsys \<Rightarrow> Inr (w\<lparr>fs := fsys, trace := trace w @ [c]\<rparr>))"

text \<open>A host on which every tool succeeds and leaves the filesystem as it is.\<close>

definition quiet_host :: host where
  "quiet_host c cf fsys = Inr fsys"

subsection \<open>The lifecycle hooks\<close>

text \<open>Lines 22 to 25.\<close>

definition layout :: hook where
  "layout h w =
     (let w1 = w\<lparr>self := (self w)\<lparr>folders := (folders (self w))\<lparr>folders_source := ''.''\<rparr>\<rparr>\<rparr>;
          w2 = w1\<lparr>self := (self w1)\<lparr>folders := (folders (self w1))\<lparr>folders_build := ''builddir''\<rparr>\<rparr>\<rparr>
      in Inr w2)"

definition source_folder :: "conanfile \<Rightarrow> path" where
  "source_folder cf = resolve (base_folder cf) (folders_source (folders cf))"

definition build_folder :: "conanfile \<Rightarrow> path" where
  "build_folder cf = resolve (base_folder cf) (folders_build (folders cf))"

text \<open>Lines 27 to 30.\<close>

definition generate :: hook where
  "generate h w = call_tool h MesonToolchainGenerate w"

text \<open>Lines 32 to 36.\<close>

definition build :: hook where
  "build h w = and_then (call_tool h MesonConfigure w) (call_tool h MesonBuild)"

text \<open>Lines 38 and 39: the first definition of \<^verbatim>\<open>source\<close>.\<close>

definition source_depth1 :: hook where
  "source_depth1 h w =
     call_tool h
       (Run (''git clone --branch v'' @ version (self w) @ '' --depth 1 '' @ url (self w))) w"

text \<open>Lines 56 and 57: the second definition of \<^verbatim>\<open>source\<close>.\<close>

definition source_full :: hook where
  "source_full h w =
     call_tool h (Run (''git clone --branch v'' @ version (self w) @ '' '' @ url (self w))) w"

text \<open>Lines 51 to 54.\<close>

definition package_info :: hook where
  "package_info h w =
     (let w1 = w\<lparr>self := (self w)\<lparr>cpp_info := (cpp_info (self w))\<lparr>libs := [''fossil_sys'']\<rparr>\<rparr>\<rparr>;
          w2 = w1\<lparr>self := (self w1)\<lparr>cpp_info := (cpp_info (self w1))\<lparr>includedirs := [''include'']\<rparr>\<rparr>\<rparr>
      in Inr w2)"

subsection \<open>The header copy of the package hook\<close>

text \<open>
  The recipe calls \<^verbatim>\<open>copy\<close> of \<^verbatim>\<open>conan.tools.files\<close>, which is not part of the
  repository. This subsection holds its model and the pieces the model is made of; the
  call itself, with the recipe's arguments, is \<open>fallback_copy\<close> below.
\<close>

text \<open>
  Shell-style matching of a file name against a pattern: \<^verbatim>\<open>*\<close> stands for any run
  of characters, \<^verbatim>\<open>?\<close> for any one character, every other character for itself.
\<close>

fun glob :: "string \<Rightarrow> string \<Rightarrow> bool" where
  "glob [] [] = True"
| "glob [] (c # cs) = False"
| "glob (p # ps) [] = (p = CHR ''*'' \<and> glob ps [])"
| "glob (p # ps) (c # cs) =
     (if p = CHR ''*'' then glob ps (c # cs) \<or> glob (p # ps) cs
      else (p = CHR ''?'' \<or> p = c) \<and> glob ps cs)"

text \<open>The name of a file that lies directly in directory \<open>d\<close>, if \<open>p\<close> is one.\<close>

definition child_name :: "path \<Rightarrow> path \<Rightarrow> string list" where
  "child_name d p = (if p \<noteq> [] \<and> butlast p = d then [last p] else [])"

text \<open>The names of the files directly in \<open>src\<close> that match the pattern.\<close>

definition matching :: "string \<Rightarrow> path \<Rightarrow> filesystem \<Rightarrow> string list" where
  "matching pattern src fsys =
     concat (map (\<lambda>p. filter (glob pattern) (child_name src p)) (map fst (files fsys)))"

text \<open>
  Copying one file: its content is read from the filesystem as it was when the step
  began and written under the same name in the destination, over a file already there.
\<close>

definition copy_file :: "path \<Rightarrow> path \<Rightarrow> filesystem \<Rightarrow> string \<Rightarrow> filesystem \<Rightarrow> filesystem" where
  "copy_file src dst fsys0 f acc =
     (case read_file fsys0 (src @ [f]) of
        None \<Rightarrow> acc
      | Some c \<Rightarrow> write_file (dst @ [f]) c acc)"

text \<open>
  Modelled from the spec: \<^verbatim>\<open>conan.tools.files.copy\<close>, which the recipe imports and
  calls but which is not part of the repository. Section 4.5 of the specification: the
  step copies every header matching a fixed pattern from a known source subpath into the
  destination directory (the produced layout is \<^verbatim>\<open>include/<name>/<subns>/*.h\<close>, the
  files directly in that directory); a file already there is overwritten; zero matching
  files is not an error; the step fails with \<^verbatim>\<open>PackagingError\<close> if the destination
  cannot be created or written.
\<close>

definition copy :: "string \<Rightarrow> path \<Rightarrow> path \<Rightarrow> filesystem \<Rightarrow> error + filesystem" where
  "copy pattern src dst fsys =
     (let names = matching pattern src fsys
      in if names = [] then Inr fsys
         else if \<not> can_write fsys dst then Inl PackagingError
         else Inr (fold (copy_file src dst fsys) names fsys))"

text \<open>Lines 46 to 49: the arguments are the recipe's own.\<close>

definition fallback_dst :: "conanfile \<Rightarrow> path" where
  "fallback_dst cf = os_path_join (package_folder cf) [''include'', ''fossil'', ''sys'']"

definition fallback_copy :: "world \<Rightarrow> error + world" where
  "fallback_copy w =
     (case copy ''*.h'' (split_path ''code/logic/fossil/sys'') (fallback_dst (self w)) (fs w) of
        Inl e \<Rightarrow> Inl e
      | Inr fsys \<Rightarrow> Inr (w\<lparr>fs := fsys\<rparr>))"

text \<open>Lines 41 to 49.\<close>

definition package :: hook where
  "package h w = and_then (call_tool h MesonInstall w) fallback_copy"

subsection \<open>The class body and method lookup\<close>

text \<open>
  A Python class body runs top to bottom and binds each \<^verbatim>\<open>def\<close> to its name in the
  class namespace; a second \<^verbatim>\<open>def\<close> of a name rebinds it. The hooks are listed in the
  order of the file; looking a method up finds the binding made last.
\<close>

definition class_body :: "(string \<times> hook) list" where
  "class_body =
     [(''layout'', layout),
      (''generate'', generate),
      (''build'', build),
      (''source'', source_depth1),
      (''package'', package),
      (''package_info'', package_info),
      (''source'', source_full)]"

definition class_namespace :: "string \<rightharpoonup> hook" where
  "class_namespace = fold (\<lambda>(n, f) ns. ns(n \<mapsto> f)) class_body Map.empty"

definition getattr_hook :: "string \<Rightarrow> hook" where
  "getattr_hook n h w =
     (case class_namespace n of
        None \<Rightarrow> Inl (AttributeError n)
      | Some f \<Rightarrow> f h w)"

text \<open>What the host runs when it calls \<^verbatim>\<open>conanfile.source()\<close>.\<close>

definition source :: hook where
  "source = getattr_hook ''source''"

subsection \<open>Reading a command line\<close>

definition argv :: "string \<Rightarrow> string list" where
  "argv cmd = filter (\<lambda>a. a \<noteq> []) (split_on (CHR '' '') cmd)"

text \<open>The value given to an option: the argument that follows it.\<close>

fun option_value :: "string \<Rightarrow> string list \<Rightarrow> string option" where
  "option_value opt [] = None"
| "option_value opt [a] = None"
| "option_value opt (a # b # rest) =
     (if a = opt then Some b else option_value opt (b # rest))"

definition fetch_ref :: "string \<Rightarrow> string option" where
  "fetch_ref cmd = option_value ''--branch'' (argv cmd)"

definition shallow :: "string \<Rightarrow> bool" where
  "shallow cmd = (''--depth'' \<in> set (argv cmd))"

subsection \<open>Concrete worlds\<close>

definition example_settings :: settings where
  "example_settings =
     \<lparr>os = ''Linux'', compiler = ''gcc'', build_type = ''Release'', arch = ''x86_64''\<rparr>"

text \<open>The recipe as the host first holds it: nothing on disk, no tool called yet.\<close>

definition fresh_world :: world where
  "fresh_world =
     \<lparr>self = FossilSysConan example_settings default_options [''work''] [''pkg''],
      fs = \<lparr>files = [], dirs = [], readonly = []\<rparr>,
      trace = []\<rparr>"


text \<open>
  A base directory that does not exist, on a filesystem where nothing can be written.
\<close>

definition no_base_world :: world where
  "no_base_world =
     \<lparr>self = FossilSysConan example_settings default_options [''nowhere''] [''pkg''],
      fs = \<lparr>files = [], dirs = [], readonly = [[]]\<rparr>,
      trace = []\<rparr>"

text \<open>
  Before \<^verbatim>\<open>package\<close>: the working directory holds the source tree with one header
  and one C file in \<^verbatim>\<open>code/logic/fossil/sys\<close>; the package folder is \<^verbatim>\<open>pkg\<close>.
\<close>

definition package_world :: world where
  "package_world =
     \<lparr>self = (FossilSysConan example_settings default_options [] [''pkg''])
               \<lparr>folders := \<lparr>folders_source = ''.'', folders_build = ''builddir''\<rparr>\<rparr>,
      fs = \<lparr>files = [([''meson.build''], ''project()''),
                      ([''code'', ''logic'', ''fossil'', ''sys'', ''framework.h''], ''#pragma once''),
                      ([''code'', ''logic'', ''fossil'', ''sys'', ''framework.c''], ''int x;'')],
            dirs = [],
            readonly = []\<rparr>,
      trace = []\<rparr>"

text \<open>The same world with the header copied below the package folder.\<close>

definition packaged_world :: world where
  "packaged_world =
     package_world\<lparr>fs := (fs package_world)\<lparr>files :=
        files (fs package_world) @
          [([''pkg'', ''include'', ''fossil'', ''sys'', ''framework.h''], ''#pragma once'')]\<rparr>\<rparr>"

section \<open>Properties\<close>

subsection \<open>Helper facts\<close>

lemma layout_result:
  "layout h w = Inr (w\<lparr>self := (self w)\<lparr>folders :=
      \<lparr>folders_source = ''.'', folders_build = ''builddir''\<rparr>\<rparr>\<rparr>)"
  by (simp add: layout_def Let_def)

lemma package_info_result:
  "package_info h w = Inr (w\<lparr>self := (self w)\<lparr>cpp_info :=
      \<lparr>libs = [''fossil_sys''], includedirs = [''include'']\<rparr>\<rparr>\<rparr>)"
  by (simp add: package_info_def Let_def)

lemma class_namespace_source: "class_namespace ''source'' = Some source_full"
  by (simp add: class_namespace_def class_body_def)

lemma source_is_source_full: "source h w = source_full h w"
  by (simp add: source_def getattr_hook_def class_namespace_source)

lemma resolve_dot: "resolve base ''.'' = base"
  by (simp add: resolve_def split_path_def)

lemma resolve_builddir: "resolve base ''builddir'' = base @ [''builddir'']"
  by (simp add: resolve_def split_path_def)

lemma argv_full: "argv ''git clone --branch v0.1.3 https://github.com/fossillogic/fossil-sys'' =
  [''git'', ''clone'', ''--branch'', ''v0.1.3'', ''https://github.com/fossillogic/fossil-sys'']"
  by (simp add: argv_def)

lemma argv_depth1: "argv ''git clone --branch v0.1.3 --depth 1 https://github.com/fossillogic/fossil-sys'' =
  [''git'', ''clone'', ''--branch'', ''v0.1.3'', ''--depth'', ''1'', ''https://github.com/fossillogic/fossil-sys'']"
  by (simp add: argv_def)



lemma fold_copy_file_other:
  "dirs (fold (copy_file src dst fsys0) ns acc) = dirs acc \<and>
   readonly (fold (copy_file src dst fsys0) ns acc) = readonly acc"
  by (induction ns arbitrary: acc) (simp_all add: copy_file_def write_file_def split: option.splits)

lemma copy_file_triv:
  assumes "\<And>c. read_file fsys0 (src @ [n]) = Some c \<Longrightarrow> read_file acc (dst @ [n]) = Some c"
  shows "copy_file src dst fsys0 n acc = acc"
proof (cases "read_file fsys0 (src @ [n])")
  case None
  then show ?thesis by (simp add: copy_file_def)
next
  case (Some c)
  then have "map_of (files acc) (dst @ [n]) = Some c"
    using assms by (simp add: read_file_def)
  then have "AList.update (dst @ [n]) c (files acc) = files acc"
    by (rule update_triv)
  then show ?thesis using Some by (simp add: copy_file_def write_file_def)
qed

lemma fold_copy_file_triv:
  assumes "\<And>f c. f \<in> set ns \<Longrightarrow> read_file fsys0 (src @ [f]) = Some c \<Longrightarrow> read_file acc (dst @ [f]) = Some c"
  shows "fold (copy_file src dst fsys0) ns acc = acc"
  using assms
proof (induction ns)
  case Nil
  then show ?case by simp
next
  case (Cons n ns)
  have "copy_file src dst fsys0 n acc = acc"
    by (rule copy_file_triv) (simp add: Cons.prems)
  then show ?case using Cons by simp
qed

lemma child_name_iff: "f \<in> set (child_name d p) \<longleftrightarrow> p = d @ [f]"
proof (cases "p \<noteq> [] \<and> butlast p = d")
  case True
  then have "p = d @ [last p]" by auto
  then have "(p = d @ [f]) = (last p = f)" by (metis last_snoc)
  then show ?thesis using True by (auto simp: child_name_def)
next
  case False
  then have "p \<noteq> d @ [f]" by auto
  then show ?thesis using False by (simp add: child_name_def)
qed

lemma matching_iff:
  "f \<in> set (matching pattern src fsys) \<longleftrightarrow>
     glob pattern f \<and> src @ [f] \<in> fst ` set (files fsys)"
proof -
  have "f \<in> set (matching pattern src fsys) \<longleftrightarrow>
          (\<exists>p \<in> fst ` set (files fsys). glob pattern f \<and> f \<in> set (child_name src p))"
    by (simp add: matching_def conj_commute)
  also have "\<dots> \<longleftrightarrow> (\<exists>p \<in> fst ` set (files fsys). glob pattern f \<and> p = src @ [f])"
    by (simp only: child_name_iff)
  also have "\<dots> \<longleftrightarrow> glob pattern f \<and> src @ [f] \<in> fst ` set (files fsys)"
    by (rule iffI) (erule bexE, simp, simp)
  finally show ?thesis .
qed

lemma copy_file_read:
  "read_file (copy_file src dst fsys0 n acc) p =
     (if p = dst @ [n] \<and> read_file fsys0 (src @ [n]) \<noteq> None
      then read_file fsys0 (src @ [n]) else read_file acc p)"
proof (cases "read_file fsys0 (src @ [n])")
  case None
  then show ?thesis by (simp add: copy_file_def)
next
  case (Some c)
  then show ?thesis
    by (simp add: copy_file_def write_file_def read_file_def update_conv')
qed

lemma fold_copy_file_snoc:
  "fold (copy_file src dst fsys0) (ns @ [n]) acc =
     copy_file src dst fsys0 n (fold (copy_file src dst fsys0) ns acc)"
  by simp

lemma fold_copy_file_written:
  "f \<in> set ns \<Longrightarrow> read_file fsys0 (src @ [f]) = Some c \<Longrightarrow>
     read_file (fold (copy_file src dst fsys0) ns acc) (dst @ [f]) = Some c"
proof (induction ns rule: rev_induct)
  case Nil
  then show ?case by simp
next
  case (snoc n ns)
  show ?case
  proof (cases "f = n")
    case True
    then show ?thesis using snoc.prems(2)
      by (simp only: fold_copy_file_snoc copy_file_read) simp
  next
    case False
    then have "f \<in> set ns" using snoc.prems(1) by simp
    then have "read_file (fold (copy_file src dst fsys0) ns acc) (dst @ [f]) = Some c"
      using snoc.IH snoc.prems(2) by simp
    then show ?thesis using False
      by (simp only: fold_copy_file_snoc copy_file_read) simp
  qed
qed

lemma fold_copy_file_untouched:
  "(\<And>g. g \<in> set ns \<Longrightarrow> p \<noteq> dst @ [g]) \<Longrightarrow>
     read_file (fold (copy_file src dst fsys0) ns acc) p = read_file acc p"
proof (induction ns rule: rev_induct)
  case Nil
  then show ?case by simp
next
  case (snoc n ns)
  have "p \<noteq> dst @ [n]" using snoc.prems by simp
  moreover have "read_file (fold (copy_file src dst fsys0) ns acc) p = read_file acc p"
    using snoc.IH snoc.prems by simp
  ultimately show ?case
    by (simp only: fold_copy_file_snoc copy_file_read) simp
qed

lemma copy_reads_imply_written:
  assumes fs1: "fs1 = fold (copy_file src dst fsys) (matching pattern src fsys) fsys"
    and g: "glob pattern f"
    and r: "read_file fs1 (src @ [f]) = Some c"
  shows "read_file fs1 (dst @ [f]) = Some c"
proof (cases "dst = src")
  case True
  then show ?thesis using r by simp
next
  case False
  then have "\<And>g. src @ [f] \<noteq> dst @ [g]" by simp
  then have "read_file fs1 (src @ [f]) = read_file fsys (src @ [f])"
    unfolding fs1 by (intro fold_copy_file_untouched) simp
  then have r0: "read_file fsys (src @ [f]) = Some c" using r by simp
  then have "(src @ [f], c) \<in> set (files fsys)"
    by (simp add: read_file_def map_of_SomeD)
  then have "src @ [f] \<in> fst ` set (files fsys)" by force
  then have "f \<in> set (matching pattern src fsys)" using g by (simp add: matching_iff)
  then show ?thesis unfolding fs1 using r0 by (rule fold_copy_file_written)
qed

lemma copy_success:
  "copy pattern src dst fsys = Inr fs1 \<longleftrightarrow>
     (matching pattern src fsys = [] \<and> fs1 = fsys) \<or>
     (matching pattern src fsys \<noteq> [] \<and> can_write fsys dst \<and>
        fs1 = fold (copy_file src dst fsys) (matching pattern src fsys) fsys)"
  by (auto simp: copy_def Let_def)

lemma copy_idempotent:
  assumes "copy pattern src dst fsys = Inr fs1"
  shows "copy pattern src dst fs1 = Inr fs1"
proof (cases "matching pattern src fsys = []")
  case True
  then have "fs1 = fsys" using assms by (simp add: copy_success)
  then show ?thesis using assms by simp
next
  case False
  then have w: "can_write fsys dst"
    and fs1: "fs1 = fold (copy_file src dst fsys) (matching pattern src fsys) fsys"
    using assms by (simp_all add: copy_success)
  have ro: "readonly fs1 = readonly fsys" unfolding fs1 by (simp add: fold_copy_file_other)
  then have w1: "can_write fs1 dst" using w by (simp add: can_write_def)
  have "fold (copy_file src dst fs1) (matching pattern src fs1) fs1 = fs1"
  proof (rule fold_copy_file_triv)
    fix f c
    assume "f \<in> set (matching pattern src fs1)" and r: "read_file fs1 (src @ [f]) = Some c"
    then have g: "glob pattern f" by (simp add: matching_iff)
    show "read_file fs1 (dst @ [f]) = Some c"
      by (rule copy_reads_imply_written [OF fs1 g r])
  qed
  then show ?thesis using w1 by (simp add: copy_def Let_def)
qed

lemma copy_no_match: "matching pattern src fsys = [] \<Longrightarrow> copy pattern src dst fsys = Inr fsys"
  by (simp add: copy_def)

lemma fallback_src: "split_path ''code/logic/fossil/sys'' = [''code'', ''logic'', ''fossil'', ''sys'']"
  by (simp add: split_path_def)

lemma package_world_matching:
  "matching ''*.h'' [''code'', ''logic'', ''fossil'', ''sys''] (fs package_world) = [''framework.h'']"
  by (simp add: matching_def child_name_def package_world_def)

lemma fallback_copy_package_world: "fallback_copy package_world = Inr packaged_world"
  by (simp add: fallback_copy_def fallback_src copy_def package_world_matching Let_def)
     (simp add: package_world_def packaged_world_def fallback_dst_def os_path_join_def
        FossilSysConan_def can_write_def copy_file_def read_file_def write_file_def)

lemma no_base_world_matching:
  "matching ''*.h'' (split_path ''code/logic/fossil/sys'') (fs no_base_world) = []"
  by (simp add: matching_def no_base_world_def)

lemma fallback_copy_result:
  "fallback_copy w = Inr w1 \<longleftrightarrow>
     (\<exists>fs1. copy ''*.h'' [''code'', ''logic'', ''fossil'', ''sys'']
               (package_folder (self w) @ [''include'', ''fossil'', ''sys'']) (fs w) = Inr fs1
            \<and> w1 = w\<lparr>fs := fs1\<rparr>)"
  by (auto simp: fallback_copy_def fallback_src fallback_dst_def os_path_join_def
           split: sum.splits)

subsection \<open>Layout\<close>

text \<open>
  Claim C8. For every recipe instance and every base directory, \<^verbatim>\<open>layout\<close> succeeds
  and leaves a layout whose source folder is \<^verbatim>\<open>.\<close>, which resolves to the base
  directory itself, and whose build folder is \<^verbatim>\<open>builddir\<close>, which resolves to the
  subdirectory of that name below the base directory.
\<close>

theorem layout_folders:
  "\<exists>w'. layout h w = Inr w'
     \<and> folders_source (folders (self w')) = ''.''
     \<and> folders_build (folders (self w')) = ''builddir''
     \<and> source_folder (self w') = base_folder (self w)
     \<and> build_folder (self w') = base_folder (self w) @ [''builddir'']"
  by (simp add: layout_result source_folder_def build_folder_def resolve_dot resolve_builddir)

text \<open>
  Claim C5, as the code has it. \<^verbatim>\<open>layout\<close> raises nothing: in every world, whether
  or not the base directory exists or can be written, it succeeds; it leaves the
  filesystem and the record of tool calls as they were and changes only the two folder
  names of the instance.
\<close>

theorem layout_never_raises:
  "\<exists>w'. layout h w = Inr w' \<and> fs w' = fs w \<and> trace w' = trace w
     \<and> self w' = (self w)\<lparr>folders := \<lparr>folders_source = ''.'', folders_build = ''builddir''\<rparr>\<rparr>"
  by (simp add: layout_result)

text \<open>
  Claim C5 as stated fails: with a base directory that does not exist and cannot be
  created, \<^verbatim>\<open>layout\<close> returns normally instead of raising \<^verbatim>\<open>ConfigurationError\<close>.
\<close>

theorem layout_missing_base_counterexample:
  "\<not> dir_exists (fs no_base_world) (base_folder (self no_base_world))
   \<and> \<not> can_write (fs no_base_world) (base_folder (self no_base_world))
   \<and> layout quiet_host no_base_world \<noteq> Inl ConfigurationError
   \<and> layout quiet_host no_base_world =
       Inr (no_base_world\<lparr>self := (self no_base_world)
              \<lparr>folders := \<lparr>folders_source = ''.'', folders_build = ''builddir''\<rparr>\<rparr>\<rparr>)"
  by (simp add: layout_result)
     (simp add: no_base_world_def FossilSysConan_def dir_exists_def populated_def can_write_def)

subsection \<open>Consumer information\<close>

text \<open>
  Claim C10. \<^verbatim>\<open>package_info\<close> cannot fail and touches nothing outside the instance:
  in every world, whatever the filesystem holds (the package folder may be absent or
  empty), it succeeds, leaves the filesystem and the record of tool calls unchanged, and
  sets libs to \<^verbatim>\<open>["fossil_sys"]\<close> and includedirs to \<^verbatim>\<open>["include"]\<close>.
\<close>

theorem package_info_total:
  "\<exists>w'. package_info h w = Inr w' \<and> fs w' = fs w \<and> trace w' = trace w
     \<and> libs (cpp_info (self w')) = [''fossil_sys'']
     \<and> includedirs (cpp_info (self w')) = [''include'']"
  by (simp add: package_info_result)

text \<open>
  Claim C7. The consumer information does not depend on settings or options: for any
  two worlds, hence for any two assignments of settings and options (and under any two
  hosts), \<^verbatim>\<open>package_info\<close> succeeds on both and leaves the same libs and includedirs;
  libs is the one-element list holding the name of the recipe class.
\<close>

theorem package_info_independent:
  "\<exists>v1 v2. package_info h1 w1 = Inr v1 \<and> package_info h2 w2 = Inr v2
     \<and> cpp_info (self v1) = cpp_info (self v2)
     \<and> libs (cpp_info (self v1)) = [name (FossilSysConan st opts base pkg)]
     \<and> includedirs (cpp_info (self v1)) = [''include'']"
  by (simp add: package_info_result FossilSysConan_def)

subsection \<open>Build\<close>

text \<open>
  Claim C3, as the code has it. Every successful run of \<^verbatim>\<open>build\<close> has called the
  configure step and then the build step, whatever was configured before: the recipe
  keeps no fingerprint and skips nothing.
\<close>

theorem build_always_configures:
  "build h w = Inr w' \<Longrightarrow> trace w' = trace w @ [MesonConfigure, MesonBuild]"
  by (auto simp: build_def and_then_def call_tool_def split: sum.splits)

theorem build_always_configures_witness:
  "build quiet_host fresh_world = Inr (fresh_world\<lparr>trace := [MesonConfigure, MesonBuild]\<rparr>)
   \<and> trace (fresh_world\<lparr>trace := [MesonConfigure, MesonBuild]\<rparr>) =
       trace fresh_world @ [MesonConfigure, MesonBuild]"
proof -
  have b: "build quiet_host fresh_world =
             Inr (fresh_world\<lparr>trace := [MesonConfigure, MesonBuild]\<rparr>)"
    by (simp add: build_def and_then_def call_tool_def quiet_host_def fresh_world_def)
  from build_always_configures [OF b] b show ?thesis by simp
qed

text \<open>
  Claim C3 as stated fails: generate the toolchain once, build, and build again with
  nothing changed in between (every tool succeeds and leaves the disk as it is, so the
  toolchain file is the same). The second build calls configure again.
\<close>

theorem build_reconfigures_counterexample:
  "and_then (and_then (generate quiet_host fresh_world) (build quiet_host)) (build quiet_host) =
     Inr (fresh_world\<lparr>trace := [MesonToolchainGenerate, MesonConfigure, MesonBuild,
                                    MesonConfigure, MesonBuild]\<rparr>)"
  by (simp add: generate_def build_def and_then_def call_tool_def quiet_host_def fresh_world_def)

subsection \<open>Source\<close>

text \<open>
  Claim C1, evaluated on the recipe as written. The class defines \<^verbatim>\<open>source\<close> twice;
  the host runs the second definition. For version 0.1.3 the command that is run names
  the ref \<^verbatim>\<open>v0.1.3\<close> but carries no \<^verbatim>\<open>--depth\<close>: it is a full clone. The first
  definition, which the second one replaces, would have run the depth-limited command.
\<close>

theorem source_effective_full_clone:
  "source quiet_host fresh_world =
     Inr (fresh_world\<lparr>trace :=
       [Run ''git clone --branch v0.1.3 https://github.com/fossillogic/fossil-sys'']\<rparr>)
   \<and> fetch_ref ''git clone --branch v0.1.3 https://github.com/fossillogic/fossil-sys'' = Some ''v0.1.3''
   \<and> \<not> shallow ''git clone --branch v0.1.3 https://github.com/fossillogic/fossil-sys''
   \<and> source_depth1 quiet_host fresh_world =
     Inr (fresh_world\<lparr>trace :=
       [Run ''git clone --branch v0.1.3 --depth 1 https://github.com/fossillogic/fossil-sys'']\<rparr>)
   \<and> shallow ''git clone --branch v0.1.3 --depth 1 https://github.com/fossillogic/fossil-sys''"
proof -
  have a: "source quiet_host fresh_world =
     Inr (fresh_world\<lparr>trace :=
       [Run ''git clone --branch v0.1.3 https://github.com/fossillogic/fossil-sys'']\<rparr>)"
    by (simp add: source_is_source_full source_full_def call_tool_def quiet_host_def
        fresh_world_def FossilSysConan_def)
  have b: "source_depth1 quiet_host fresh_world =
     Inr (fresh_world\<lparr>trace :=
       [Run ''git clone --branch v0.1.3 --depth 1 https://github.com/fossillogic/fossil-sys'']\<rparr>)"
    by (simp add: source_depth1_def call_tool_def quiet_host_def
        fresh_world_def FossilSysConan_def)
  have c: "fetch_ref ''git clone --branch v0.1.3 https://github.com/fossillogic/fossil-sys'' = Some ''v0.1.3''"
    by (simp add: fetch_ref_def argv_full)
  have d: "\<not> shallow ''git clone --branch v0.1.3 https://github.com/fossillogic/fossil-sys''"
    by (simp add: shallow_def argv_full)
  have e: "shallow ''git clone --branch v0.1.3 --depth 1 https://github.com/fossillogic/fossil-sys''"
    by (simp add: shallow_def argv_depth1)
  from a b c d e show ?thesis by blast
qed




subsection \<open>Package\<close>

text \<open>
  Claim C2, as the code has it. The fallback copy of \<^verbatim>\<open>package\<close> puts every header
  \<^verbatim>\<open>f\<close> matching \<^verbatim>\<open>*.h\<close> in \<^verbatim>\<open>code/logic/fossil/sys\<close> at
  \<^verbatim>\<open>include/fossil/sys/f\<close> below the package folder, with its content, whenever that
  directory can be written; \<^verbatim>\<open>package_info\<close> then reports libs \<^verbatim>\<open>["fossil_sys"]\<close>
  and includedirs \<^verbatim>\<open>["include"]\<close>.
\<close>

theorem fallback_copy_places_headers:
  "glob ''*.h'' f \<Longrightarrow>
   read_file (fs w) [''code'', ''logic'', ''fossil'', ''sys'', f] = Some c \<Longrightarrow>
   can_write (fs w) (package_folder (self w) @ [''include'', ''fossil'', ''sys'']) \<Longrightarrow>
   \<exists>w1 w2. fallback_copy w = Inr w1 \<and> package_info h w1 = Inr w2
     \<and> read_file (fs w2) (package_folder (self w) @ [''include'', ''fossil'', ''sys'', f]) = Some c
     \<and> libs (cpp_info (self w2)) = [''fossil_sys'']
     \<and> includedirs (cpp_info (self w2)) = [''include'']"
proof -
  assume g: "glob ''*.h'' f"
    and r: "read_file (fs w) [''code'', ''logic'', ''fossil'', ''sys'', f] = Some c"
    and cw: "can_write (fs w) (package_folder (self w) @ [''include'', ''fossil'', ''sys''])"
  let ?src = "[''code'', ''logic'', ''fossil'', ''sys'']"
  let ?dst = "package_folder (self w) @ [''include'', ''fossil'', ''sys'']"
  let ?ns = "matching ''*.h'' ?src (fs w)"
  let ?fs1 = "fold (copy_file ?src ?dst (fs w)) ?ns (fs w)"
  have r': "read_file (fs w) (?src @ [f]) = Some c" using r by simp
  then have "(?src @ [f], c) \<in> set (files (fs w))"
    by (simp only: read_file_def map_of_SomeD)
  then have "?src @ [f] \<in> fst ` set (files (fs w))" by force
  then have m: "f \<in> set ?ns" using g by (simp only: matching_iff simp_thms)
  then have "?ns \<noteq> []" by auto
  then have c1: "copy ''*.h'' ?src ?dst (fs w) = Inr ?fs1"
    using cw by (simp only: copy_success) simp
  have "read_file ?fs1 (?dst @ [f]) = Some c"
    using m r' by (rule fold_copy_file_written)
  then have rd: "read_file ?fs1 (package_folder (self w) @ [''include'', ''fossil'', ''sys'', f]) = Some c"
    by simp
  have fc: "fallback_copy w = Inr (w\<lparr>fs := ?fs1\<rparr>)"
    using c1 by (simp only: fallback_copy_result) blast
  show ?thesis
    using fc rd by (simp add: package_info_result)
qed

theorem fallback_copy_places_headers_witness:
  "glob ''*.h'' ''framework.h''
   \<and> read_file (fs package_world) [''code'', ''logic'', ''fossil'', ''sys'', ''framework.h'']
       = Some ''#pragma once''
   \<and> can_write (fs package_world) (package_folder (self package_world) @ [''include'', ''fossil'', ''sys''])
   \<and> (\<exists>w1 w2. fallback_copy package_world = Inr w1 \<and> package_info quiet_host w1 = Inr w2
     \<and> read_file (fs w2) (package_folder (self package_world) @
           [''include'', ''fossil'', ''sys'', ''framework.h'']) = Some ''#pragma once''
     \<and> libs (cpp_info (self w2)) = [''fossil_sys'']
     \<and> includedirs (cpp_info (self w2)) = [''include''])"
proof -
  have g: "glob ''*.h'' ''framework.h''" by simp
  have r: "read_file (fs package_world) [''code'', ''logic'', ''fossil'', ''sys'', ''framework.h'']
       = Some ''#pragma once''"
    by (simp add: read_file_def package_world_def)
  have cw: "can_write (fs package_world)
      (package_folder (self package_world) @ [''include'', ''fossil'', ''sys''])"
    by (simp add: can_write_def package_world_def)
  from fallback_copy_places_headers [OF g r cw, of quiet_host] g r cw
  show ?thesis by blast
qed

text \<open>
  Claim C2 as stated fails: for the package named \<^verbatim>\<open>fossil_sys\<close> the header is not
  placed at \<^verbatim>\<open>include/fossil_sys/sys/\<close>; the directory is \<^verbatim>\<open>include/fossil/sys/\<close>.
\<close>

theorem fallback_copy_path_counterexample:
  "name (self package_world) = ''fossil_sys''
   \<and> fallback_copy package_world = Inr packaged_world
   \<and> read_file (fs packaged_world)
        (package_folder (self package_world) @ [''include'', ''fossil_sys'', ''sys'', ''framework.h''])
       = None
   \<and> read_file (fs packaged_world)
        (package_folder (self package_world) @ [''include'', ''fossil'', ''sys'', ''framework.h''])
       = Some ''#pragma once''"
proof -
  have "name (self package_world) = ''fossil_sys''"
    by (simp add: package_world_def FossilSysConan_def)
  moreover have "read_file (fs packaged_world)
        (package_folder (self package_world) @ [''include'', ''fossil_sys'', ''sys'', ''framework.h''])
       = None"
    by (simp add: read_file_def packaged_world_def package_world_def FossilSysConan_def)
  moreover have "read_file (fs packaged_world)
        (package_folder (self package_world) @ [''include'', ''fossil'', ''sys'', ''framework.h''])
       = Some ''#pragma once''"
    by (simp add: read_file_def packaged_world_def package_world_def FossilSysConan_def)
  ultimately show ?thesis using fallback_copy_package_world by simp
qed

text \<open>
  Claim C9. The fallback copy is idempotent: if it succeeds, running it again on the
  result succeeds and changes nothing. When no file in \<^verbatim>\<open>code/logic/fossil/sys\<close>
  matches \<^verbatim>\<open>*.h\<close> it raises no error and leaves the world as it is, even where the
  package folder cannot be written.
\<close>

theorem fallback_copy_idempotent:
  "(fallback_copy w = Inr w1 \<longrightarrow> fallback_copy w1 = Inr w1)
   \<and> (matching ''*.h'' (split_path ''code/logic/fossil/sys'') (fs v) = []
        \<longrightarrow> fallback_copy v = Inr v)"
proof (intro conjI impI)
  assume "fallback_copy w = Inr w1"
  then obtain fs1 where
    c: "copy ''*.h'' [''code'', ''logic'', ''fossil'', ''sys'']
          (package_folder (self w) @ [''include'', ''fossil'', ''sys'']) (fs w) = Inr fs1"
    and w1: "w1 = w\<lparr>fs := fs1\<rparr>"
    by (auto simp: fallback_copy_result)
  have "copy ''*.h'' [''code'', ''logic'', ''fossil'', ''sys'']
          (package_folder (self w) @ [''include'', ''fossil'', ''sys'']) fs1 = Inr fs1"
    using c by (rule copy_idempotent)
  then show "fallback_copy w1 = Inr w1"
    by (simp add: fallback_copy_result w1)
next
  assume "matching ''*.h'' (split_path ''code/logic/fossil/sys'') (fs v) = []"
  then have "copy ''*.h'' (split_path ''code/logic/fossil/sys'') (fallback_dst (self v)) (fs v)
               = Inr (fs v)"
    by (rule copy_no_match)
  then show "fallback_copy v = Inr v" by (simp add: fallback_copy_def)
qed

theorem fallback_copy_idempotent_witness:
  "fallback_copy package_world = Inr packaged_world
   \<and> fallback_copy packaged_world = Inr packaged_world
   \<and> packaged_world \<noteq> package_world
   \<and> matching ''*.h'' (split_path ''code/logic/fossil/sys'') (fs no_base_world) = []
   \<and> \<not> can_write (fs no_base_world) (fallback_dst (self no_base_world))
   \<and> fallback_copy no_base_world = Inr no_base_world"
proof -
  have ne: "packaged_world \<noteq> package_world"
  proof
    assume "packaged_world = package_world"
    then have "files (fs packaged_world) = files (fs package_world)" by simp
    then show False by (simp add: packaged_world_def)
  qed
  have nw: "\<not> can_write (fs no_base_world) (fallback_dst (self no_base_world))"
    by (simp add: can_write_def no_base_world_def)
  from fallback_copy_idempotent [of package_world packaged_world no_base_world]
    fallback_copy_package_world no_base_world_matching ne nw
  show ?thesis by simp
qed

end
